theory Spec2Isabelle
  imports Main
begin

section \<open>Strings and numbers\<close>

text \<open>
  A JavaScript string is modelled by the list of the bytes of its UTF-8 encoding, so that
  an ASCII character is one \<open>char\<close> and every other character is a sequence of bytes
  from \<open>0x80\<close> upwards. The three patterns of the analyzer name ASCII characters only,
  apart from the class \<open>\s\<close>, whose non-ASCII members are written out as byte sequences.

  Counts (array lengths, line numbers and their sums) are natural numbers. A template
  literal renders such a number in decimal.
\<close>

fun show_nat :: "nat \<Rightarrow> string" where
  "show_nat n =
     (if n < 10 then [char_of (48 + n)]
      else show_nat (n div 10) @ [char_of (48 + n mod 10)])"

declare show_nat.simps [simp del]

text \<open>\<open>String.prototype.split\<close> with a separator of one character: the pieces between the
  occurrences of the separator, in order; a string without the separator (the empty
  string too) is the only piece. There is always a first piece, which takes the character
  in front of it.\<close>

fun split :: "char \<Rightarrow> string \<Rightarrow> string list" where
  "split sep [] = [[]]"
| "split sep (c # cs) =
     (if c = sep then [] # split sep cs
      else (case split sep cs of
              [] \<Rightarrow> [[c]]
            | piece # pieces \<Rightarrow> (c # piece) # pieces))"

subsection \<open>Texts outside ASCII\<close>

text \<open>The texts of the reports that are not ASCII, as UTF-8: pictographs first, then the
  Chinese words with their code points and meaning.\<close>

text \<open>U+1F916, a robot face.\<close>

definition robot :: string where
  "robot =
     [CHR 0xF0, CHR 0x9F, CHR 0xA4, CHR 0x96]"

text \<open>U+1F4CA, a bar chart.\<close>

definition bar_chart :: string where
  "bar_chart =
     [CHR 0xF0, CHR 0x9F, CHR 0x93, CHR 0x8A]"

text \<open>U+26A0 U+FE0F, a warning sign.\<close>

definition warning_sign :: string where
  "warning_sign =
     [CHR 0xE2, CHR 0x9A, CHR 0xA0, CHR 0xEF, CHR 0xB8, CHR 0x8F]"

text \<open>U+1F4CB, a clipboard.\<close>

definition clipboard :: string where
  "clipboard =
     [CHR 0xF0, CHR 0x9F, CHR 0x93, CHR 0x8B]"

text \<open>U+1F534, a red circle.\<close>

definition red_circle :: string where
  "red_circle =
     [CHR 0xF0, CHR 0x9F, CHR 0x94, CHR 0xB4]"

text \<open>U+1F7E1, a yellow circle.\<close>

definition yellow_circle :: string where
  "yellow_circle =
     [CHR 0xF0, CHR 0x9F, CHR 0x9F, CHR 0xA1]"

text \<open>U+2139 U+FE0F, an information sign.\<close>

definition information :: string where
  "information =
     [CHR 0xE2, CHR 0x84, CHR 0xB9, CHR 0xEF, CHR 0xB8, CHR 0x8F]"

text \<open>U+2705, a check mark.\<close>

definition check_mark :: string where
  "check_mark =
     [CHR 0xE2, CHR 0x9C, CHR 0x85]"

text \<open>U+4EE3 U+7801 U+5BA1 U+67E5 U+62A5 U+544A:
  \<open>code review report\<close>.\<close>

definition zh_code_review_report :: string where
  "zh_code_review_report =
     [CHR 0xE4, CHR 0xBB, CHR 0xA3, CHR 0xE7, CHR 0xA0, CHR 0x81, CHR 0xE5, CHR 0xAE,
      CHR 0xA1, CHR 0xE6, CHR 0x9F, CHR 0xA5, CHR 0xE6, CHR 0x8A, CHR 0xA5, CHR 0xE5,
      CHR 0x91, CHR 0x8A]"

text \<open>U+4ED3 U+5E93: \<open>repository\<close>.\<close>

definition zh_repository :: string where
  "zh_repository =
     [CHR 0xE4, CHR 0xBB, CHR 0x93, CHR 0xE5, CHR 0xBA, CHR 0x93]"

text \<open>U+5206 U+652F: \<open>branch\<close>.\<close>

definition zh_branch :: string where
  "zh_branch =
     [CHR 0xE5, CHR 0x88, CHR 0x86, CHR 0xE6, CHR 0x94, CHR 0xAF]"

text \<open>U+4E8B U+4EF6: \<open>event\<close>.\<close>

definition zh_event :: string where
  "zh_event =
     [CHR 0xE4, CHR 0xBA, CHR 0x8B, CHR 0xE4, CHR 0xBB, CHR 0xB6]"

text \<open>U+65F6 U+95F4: \<open>time\<close>.\<close>

definition zh_time :: string where
  "zh_time =
     [CHR 0xE6, CHR 0x97, CHR 0xB6, CHR 0xE9, CHR 0x97, CHR 0xB4]"

text \<open>U+5BA1 U+67E5 U+6458 U+8981: \<open>review summary\<close>.\<close>

definition zh_review_summary :: string where
  "zh_review_summary =
     [CHR 0xE5, CHR 0xAE, CHR 0xA1, CHR 0xE6, CHR 0x9F, CHR 0xA5, CHR 0xE6, CHR 0x91,
      CHR 0x98, CHR 0xE8, CHR 0xA6, CHR 0x81]"

text \<open>U+6307 U+6807: \<open>indicator\<close>.\<close>

definition zh_indicator :: string where
  "zh_indicator =
     [CHR 0xE6, CHR 0x8C, CHR 0x87, CHR 0xE6, CHR 0xA0, CHR 0x87]"

text \<open>U+6570 U+91CF: \<open>quantity\<close>.\<close>

definition zh_quantity :: string where
  "zh_quantity =
     [CHR 0xE6, CHR 0x95, CHR 0xB0, CHR 0xE9, CHR 0x87, CHR 0x8F]"

text \<open>U+626B U+63CF U+6587 U+4EF6: \<open>scanned files\<close>.\<close>

definition zh_scanned_files :: string where
  "zh_scanned_files =
     [CHR 0xE6, CHR 0x89, CHR 0xAB, CHR 0xE6, CHR 0x8F, CHR 0x8F, CHR 0xE6, CHR 0x96,
      CHR 0x87, CHR 0xE4, CHR 0xBB, CHR 0xB6]"

text \<open>U+53D1 U+73B0 U+95EE U+9898: \<open>issues found\<close>.\<close>

definition zh_issues_found :: string where
  "zh_issues_found =
     [CHR 0xE5, CHR 0x8F, CHR 0x91, CHR 0xE7, CHR 0x8E, CHR 0xB0, CHR 0xE9, CHR 0x97,
      CHR 0xAE, CHR 0xE9, CHR 0xA2, CHR 0x98]"

text \<open>U+9519 U+8BEF U+6570 U+91CF: \<open>number of errors\<close>.\<close>

definition zh_error_count :: string where
  "zh_error_count =
     [CHR 0xE9, CHR 0x94, CHR 0x99, CHR 0xE8, CHR 0xAF, CHR 0xAF, CHR 0xE6, CHR 0x95,
      CHR 0xB0, CHR 0xE9, CHR 0x87, CHR 0x8F]"

text \<open>U+5173 U+952E U+6587 U+4EF6: \<open>key files\<close>.\<close>

definition zh_key_files :: string where
  "zh_key_files =
     [CHR 0xE5, CHR 0x85, CHR 0xB3, CHR 0xE9, CHR 0x94, CHR 0xAE, CHR 0xE6, CHR 0x96,
      CHR 0x87, CHR 0xE4, CHR 0xBB, CHR 0xB6]"

text \<open>U+9700 U+8981 U+4F18 U+5148 U+4FEE U+590D U+7684 U+6587 U+4EF6:
  \<open>files that need fixing first\<close>.\<close>

definition zh_priority_files :: string where
  "zh_priority_files =
     [CHR 0xE9, CHR 0x9C, CHR 0x80, CHR 0xE8, CHR 0xA6, CHR 0x81, CHR 0xE4, CHR 0xBC,
      CHR 0x98, CHR 0xE5, CHR 0x85, CHR 0x88, CHR 0xE4, CHR 0xBF, CHR 0xAE, CHR 0xE5,
      CHR 0xA4, CHR 0x8D, CHR 0xE7, CHR 0x9A, CHR 0x84, CHR 0xE6, CHR 0x96, CHR 0x87,
      CHR 0xE4, CHR 0xBB, CHR 0xB6]"

text \<open>U+4E2A U+9519 U+8BEF: \<open>errors (with the counter word)\<close>.\<close>

definition zh_errors :: string where
  "zh_errors =
     [CHR 0xE4, CHR 0xB8, CHR 0xAA, CHR 0xE9, CHR 0x94, CHR 0x99, CHR 0xE8, CHR 0xAF,
      CHR 0xAF]"

text \<open>U+8BE6 U+7EC6 U+95EE U+9898 U+5217 U+8868:
  \<open>detailed list of issues\<close>.\<close>

definition zh_detailed_issues :: string where
  "zh_detailed_issues =
     [CHR 0xE8, CHR 0xAF, CHR 0xA6, CHR 0xE7, CHR 0xBB, CHR 0x86, CHR 0xE9, CHR 0x97,
      CHR 0xAE, CHR 0xE9, CHR 0xA2, CHR 0x98, CHR 0xE5, CHR 0x88, CHR 0x97, CHR 0xE8,
      CHR 0xA1, CHR 0xA8]"

text \<open>U+95EE U+9898 U+6570: \<open>issue count\<close>.\<close>

definition zh_issue_number :: string where
  "zh_issue_number =
     [CHR 0xE9, CHR 0x97, CHR 0xAE, CHR 0xE9, CHR 0xA2, CHR 0x98, CHR 0xE6, CHR 0x95,
      CHR 0xB0]"

text \<open>U+9519 U+8BEF U+6570: \<open>error count\<close>.\<close>

definition zh_error_number :: string where
  "zh_error_number =
     [CHR 0xE9, CHR 0x94, CHR 0x99, CHR 0xE8, CHR 0xAF, CHR 0xAF, CHR 0xE6, CHR 0x95,
      CHR 0xB0]"

text \<open>U+8FD8 U+6709: \<open>and also\<close>.\<close>

definition zh_and_more :: string where
  "zh_and_more =
     [CHR 0xE8, CHR 0xBF, CHR 0x98, CHR 0xE6, CHR 0x9C, CHR 0x89]"

text \<open>U+4E2A U+95EE U+9898: \<open>issues (with the counter word)\<close>.\<close>

definition zh_issues :: string where
  "zh_issues =
     [CHR 0xE4, CHR 0xB8, CHR 0xAA, CHR 0xE9, CHR 0x97, CHR 0xAE, CHR 0xE9, CHR 0xA2,
      CHR 0x98]"

text \<open>U+4E2A U+6587 U+4EF6 U+5305 U+542B U+95EE U+9898:
  \<open>files contain issues\<close>.\<close>

definition zh_files_with_issues :: string where
  "zh_files_with_issues =
     [CHR 0xE4, CHR 0xB8, CHR 0xAA, CHR 0xE6, CHR 0x96, CHR 0x87, CHR 0xE4, CHR 0xBB,
      CHR 0xB6, CHR 0xE5, CHR 0x8C, CHR 0x85, CHR 0xE5, CHR 0x90, CHR 0xAB, CHR 0xE9,
      CHR 0x97, CHR 0xAE, CHR 0xE9, CHR 0xA2, CHR 0x98]"

text \<open>U+592A U+68D2 U+4E86 U+FF01:
  \<open>great, with a full-width exclamation mark\<close>.\<close>

definition zh_great :: string where
  "zh_great =
     [CHR 0xE5, CHR 0xA4, CHR 0xAA, CHR 0xE6, CHR 0xA3, CHR 0x92, CHR 0xE4, CHR 0xBA,
      CHR 0x86, CHR 0xEF, CHR 0xBC, CHR 0x81]"

text \<open>U+6CA1 U+6709 U+53D1 U+73B0 U+4EFB U+4F55 U+95EE U+9898 U+FF0C U+4EE3 U+7801 U+8D28 U+91CF U+826F U+597D U+FF01:
  \<open>no issue found, the code quality is good\<close>.\<close>

definition zh_no_issues :: string where
  "zh_no_issues =
     [CHR 0xE6, CHR 0xB2, CHR 0xA1, CHR 0xE6, CHR 0x9C, CHR 0x89, CHR 0xE5, CHR 0x8F,
      CHR 0x91, CHR 0xE7, CHR 0x8E, CHR 0xB0, CHR 0xE4, CHR 0xBB, CHR 0xBB, CHR 0xE4,
      CHR 0xBD, CHR 0x95, CHR 0xE9, CHR 0x97, CHR 0xAE, CHR 0xE9, CHR 0xA2, CHR 0x98,
      CHR 0xEF, CHR 0xBC, CHR 0x8C, CHR 0xE4, CHR 0xBB, CHR 0xA3, CHR 0xE7, CHR 0xA0,
      CHR 0x81, CHR 0xE8, CHR 0xB4, CHR 0xA8, CHR 0xE9, CHR 0x87, CHR 0x8F, CHR 0xE8,
      CHR 0x89, CHR 0xAF, CHR 0xE5, CHR 0xA5, CHR 0xBD, CHR 0xEF, CHR 0xBC, CHR 0x81]"

text \<open>U+6B64 U+62A5 U+544A U+7531: \<open>this report is by\<close>.\<close>

definition zh_report_by :: string where
  "zh_report_by =
     [CHR 0xE6, CHR 0xAD, CHR 0xA4, CHR 0xE6, CHR 0x8A, CHR 0xA5, CHR 0xE5, CHR 0x91,
      CHR 0x8A, CHR 0xE7, CHR 0x94, CHR 0xB1]"

text \<open>U+4EE3 U+7801 U+5BA1 U+67E5 U+7CFB U+7EDF:
  \<open>code review system\<close>.\<close>

definition zh_review_system :: string where
  "zh_review_system =
     [CHR 0xE4, CHR 0xBB, CHR 0xA3, CHR 0xE7, CHR 0xA0, CHR 0x81, CHR 0xE5, CHR 0xAE,
      CHR 0xA1, CHR 0xE6, CHR 0x9F, CHR 0xA5, CHR 0xE7, CHR 0xB3, CHR 0xBB, CHR 0xE7,
      CHR 0xBB, CHR 0x9F]"

text \<open>U+81EA U+52A8 U+751F U+6210: \<open>generated automatically\<close>.\<close>

definition zh_generated :: string where
  "zh_generated =
     [CHR 0xE8, CHR 0x87, CHR 0xAA, CHR 0xE5, CHR 0x8A, CHR 0xA8, CHR 0xE7, CHR 0x94,
      CHR 0x9F, CHR 0xE6, CHR 0x88, CHR 0x90]"

section \<open>Regular expressions\<close>

text \<open>
  The patterns of the source use literals, character classes (plain and negated), the
  class \<open>\s\<close>, alternation, \<open>?\<close>, \<open>*\<close> and \<open>+\<close>, and no back reference, look-around or
  anchor. For such a pattern \<open>RegExp.prototype.test\<close> (no \<open>g\<close> flag, so no state) answers
  whether some substring of the input belongs to the language of the pattern. It is
  computed here with derivatives.
\<close>

datatype regex =
    Never
  | Empty
  | OneOf "char list"
  | NoneOf "char list"
  | Space
  | Seq regex regex
  | Alt regex regex
  | Star regex

record RegExp =
  source :: regex
  ignoreCase :: bool

text \<open>Under the \<open>i\<close> flag (without \<open>u\<close>) two code units match when they canonicalize to the
  same code unit: upper case for the ASCII letters; a non-ASCII code unit never
  canonicalizes to an ASCII one, so the bytes from \<open>0x80\<close> upwards are left alone.\<close>

definition canonicalize :: "char \<Rightarrow> char" where
  "canonicalize c =
     (case map_of (zip ''abcdefghijklmnopqrstuvwxyz'' ''ABCDEFGHIJKLMNOPQRSTUVWXYZ'') c of
        Some u \<Rightarrow> u
      | None \<Rightarrow> c)"

definition in_class :: "bool \<Rightarrow> char list \<Rightarrow> char \<Rightarrow> bool" where
  "in_class ci cs c =
     (if ci then canonicalize c \<in> set (map canonicalize cs) else c \<in> set cs)"

text \<open>
  The class \<open>\s\<close>: the white space and line terminators of ECMAScript. Tab, line feed,
  vertical tab, form feed, carriage return and space are one byte each; the others are
  U+00A0, U+1680, U+2000 to U+200A, U+2028, U+2029, U+202F, U+205F, U+3000 and U+FEFF in
  UTF-8. None of these bytes is a letter, so the \<open>i\<close> flag does not change the class.
\<close>

definition white_space :: "string list" where
  "white_space =
     [[CHR 0x09], [CHR 0x0A], [CHR 0x0B], [CHR 0x0C], [CHR 0x0D], [CHR 0x20],
      [CHR 0xC2, CHR 0xA0],
      [CHR 0xE1, CHR 0x9A, CHR 0x80],
      [CHR 0xE2, CHR 0x80, CHR 0x80], [CHR 0xE2, CHR 0x80, CHR 0x81],
      [CHR 0xE2, CHR 0x80, CHR 0x82], [CHR 0xE2, CHR 0x80, CHR 0x83],
      [CHR 0xE2, CHR 0x80, CHR 0x84], [CHR 0xE2, CHR 0x80, CHR 0x85],
      [CHR 0xE2, CHR 0x80, CHR 0x86], [CHR 0xE2, CHR 0x80, CHR 0x87],
      [CHR 0xE2, CHR 0x80, CHR 0x88], [CHR 0xE2, CHR 0x80, CHR 0x89],
      [CHR 0xE2, CHR 0x80, CHR 0x8A],
      [CHR 0xE2, CHR 0x80, CHR 0xA8], [CHR 0xE2, CHR 0x80, CHR 0xA9],
      [CHR 0xE2, CHR 0x80, CHR 0xAF],
      [CHR 0xE2, CHR 0x81, CHR 0x9F],
      [CHR 0xE3, CHR 0x80, CHR 0x80],
      [CHR 0xEF, CHR 0xBB, CHR 0xBF]]"

fun nullable :: "regex \<Rightarrow> bool" where
  "nullable Never = False"
| "nullable Empty = True"
| "nullable (OneOf cs) = False"
| "nullable (NoneOf cs) = False"
| "nullable Space = False"
| "nullable (Seq r s) = (nullable r \<and> nullable s)"
| "nullable (Alt r s) = (nullable r \<or> nullable s)"
| "nullable (Star r) = True"

text \<open>Sequence and alternation that drop what can no longer match, so that a
  derivative stays small.\<close>

definition seq :: "regex \<Rightarrow> regex \<Rightarrow> regex" where
  "seq r s = (if r = Never \<or> s = Never then Never else if r = Empty then s else Seq r s)"

definition alt :: "regex \<Rightarrow> regex \<Rightarrow> regex" where
  "alt r s = (if r = Never then s else if s = Never then r else Alt r s)"

text \<open>A string as a pattern, and one of several strings.\<close>

definition lit :: "string \<Rightarrow> regex" where
  "lit s = foldr (\<lambda>c r. seq (OneOf [c]) r) s Empty"

definition alts :: "regex list \<Rightarrow> regex" where
  "alts rs = foldr alt rs Never"

text \<open>What may follow the byte \<open>c\<close> inside one white space character.\<close>

definition space_rest :: "char \<Rightarrow> regex" where
  "space_rest c = alts (map (\<lambda>w. lit (tl w)) (filter (\<lambda>w. hd w = c) white_space))"

fun deriv :: "bool \<Rightarrow> char \<Rightarrow> regex \<Rightarrow> regex" where
  "deriv ci c Never = Never"
| "deriv ci c Empty = Never"
| "deriv ci c (OneOf cs) = (if in_class ci cs c then Empty else Never)"
| "deriv ci c (NoneOf cs) = (if in_class ci cs c then Never else Empty)"
| "deriv ci c Space = space_rest c"
| "deriv ci c (Seq r s) =
     (if nullable r then alt (seq (deriv ci c r) s) (deriv ci c s)
      else seq (deriv ci c r) s)"
| "deriv ci c (Alt r s) = alt (deriv ci c r) (deriv ci c s)"
| "deriv ci c (Star r) = seq (deriv ci c r) (Star r)"

text \<open>Does the pattern match at the start of the input?\<close>

fun match_here :: "bool \<Rightarrow> regex \<Rightarrow> string \<Rightarrow> bool" where
  "match_here ci r [] = nullable r"
| "match_here ci r (c # cs) =
     (if nullable r then True
      else if r = Never then False
      else match_here ci (deriv ci c r) cs)"

text \<open>Does it match at some index of the input, the end included?\<close>

fun match_anywhere :: "bool \<Rightarrow> regex \<Rightarrow> string \<Rightarrow> bool" where
  "match_anywhere ci r [] = nullable r"
| "match_anywhere ci r (c # cs) =
     (if match_here ci r (c # cs) then True else match_anywhere ci r cs)"

definition test :: "RegExp \<Rightarrow> string \<Rightarrow> bool" where
  "test re s = match_anywhere (ignoreCase re) (source re) s"

subsection \<open>Writing patterns\<close>

definition Opt :: "regex \<Rightarrow> regex" where
  "Opt r = Alt r Empty"

definition Plus :: "regex \<Rightarrow> regex" where
  "Plus r = Seq r (Star r)"

definition seqs :: "regex list \<Rightarrow> regex" where
  "seqs rs = foldr seq rs Empty"

definition quotes :: "char list" where
  "quotes = [CHR 0x27, CHR 0x22]"

section \<open>The static analyzer\<close>

datatype Severity = Error | Warning | Info

record Finding =
  line :: nat
  severity :: Severity
  message :: string
  rule :: string

record Summary =
  total' :: nat
  errors :: nat
  warnings :: nat

record StaticResult =
  issues :: "Finding list"
  summary :: Summary

text \<open>\<^verbatim>\<open>/console\.(log|debug|info)/\<close>\<close>

definition no_console :: RegExp where
  "no_console =
     \<lparr>source = Seq (lit ''console.'') (alts [lit ''log'', lit ''debug'', lit ''info'']),
      ignoreCase = False\<rparr>"

text \<open>\<^verbatim>\<open>/(password|api[_-]?key|secret|token)\s*=\s*['"][^'"]+['"]/i\<close>\<close>

definition no_hardcoded_secrets :: RegExp where
  "no_hardcoded_secrets =
     \<lparr>source = seqs
        [alts [lit ''password'',
               seqs [lit ''api'', Opt (OneOf ''_-''), lit ''key''],
               lit ''secret'',
               lit ''token''],
         Star Space, lit ''='', Star Space,
         OneOf quotes, Plus (NoneOf quotes), OneOf quotes],
      ignoreCase = True\<rparr>"

text \<open>\<^verbatim>\<open>/\/\/\s*TODO/i\<close>\<close>

definition todo_comment :: RegExp where
  "todo_comment =
     \<lparr>source = seqs [lit ''//'', Star Space, lit ''TODO''], ignoreCase = True\<rparr>"

text \<open>The body of the callback of \<open>lines.forEach\<close>: three tests in a row, each pushing one
  finding onto \<open>issues\<close>, the array the callback closes over.\<close>

definition checkLine :: "Finding list \<Rightarrow> string \<Rightarrow> nat \<Rightarrow> Finding list" where
  "checkLine issues0 ln idx =
     (let issues1 =
            (if test no_console ln
             then issues0 @ [\<lparr>line = idx + 1, severity = Warning,
                               message = ''Debug statement found'', rule = ''no-console''\<rparr>]
             else issues0);
          issues2 =
            (if test no_hardcoded_secrets ln
             then issues1 @ [\<lparr>line = idx + 1, severity = Error,
                               message = ''Hardcoded secret detected'',
                               rule = ''no-hardcoded-secrets''\<rparr>]
             else issues1);
          issues3 =
            (if test todo_comment ln
             then issues2 @ [\<lparr>line = idx + 1, severity = Info,
                               message = ''TODO comment found'', rule = ''todo-comment''\<rparr>]
             else issues2)
      in issues3)"

text \<open>\<open>Array.prototype.forEach\<close> over a callback that updates a captured variable: the
  elements in order, each with its index, the state threaded through.\<close>

fun forEach :: "('s \<Rightarrow> 'a \<Rightarrow> nat \<Rightarrow> 's) \<Rightarrow> 'a list \<Rightarrow> nat \<Rightarrow> 's \<Rightarrow> 's" where
  "forEach f [] idx s = s"
| "forEach f (x # xs) idx s = forEach f xs (Suc idx) (f s x idx)"

text \<open>\<open>staticAnalyzerTool.execute\<close>. The file name is an input that the body never reads.\<close>

definition staticAnalyzer :: "string \<Rightarrow> string \<Rightarrow> StaticResult" where
  "staticAnalyzer code fileName =
     (let lines = split CHR ''\<newline>'' code;
          found = forEach checkLine lines 0 [];
          nerrors = length (filter (\<lambda>i. severity i = Error) found);
          nwarnings = length (filter (\<lambda>i. severity i = Warning) found)
      in \<lparr>issues = found,
          summary = \<lparr>total' = length found, errors = nerrors, warnings = nwarnings\<rparr>\<rparr>)"

section \<open>The review workflow\<close>

text \<open>What a \<open>catch\<close> clause of the source reads of a thrown value is its \<open>message\<close>
  property. Reading it off \<open>null\<close> or \<open>undefined\<close> throws a \<open>TypeError\<close>; any other value
  gives the text of an \<open>Error\<close>, or nothing where there is no such property.\<close>

datatype exn = Nullish | Thrown "string option"

definition new_Error :: "string \<Rightarrow> exn" where
  "new_Error m = Thrown (Some m)"

record Metrics =
  staticIssues :: nat
  staticErrors :: nat

record InputData =
  code :: string
  fileName :: string

record StaticAnalysisOutput =
  code :: string
  fileName :: string
  staticResult :: StaticResult

record AiReviewOutput =
  fileName :: string
  staticResult :: StaticResult
  aiReview :: string

record WorkflowOutput =
  fileName :: string
  report :: string
  metrics :: Metrics

text \<open>
  The agent is the one collaborator outside the repository. \<open>agent.generate(prompt)\<close>
  resolves to a response whose \<open>text\<close> may be missing, or rejects. The prompt is made of
  the file name, the code and the static result of the step's input and of nothing else,
  so an agent is given here as a function of that input. The registry \<open>mastra\<close> says, for
  the run started for the file at a given index, which agent \<open>getAgent\<close> finds, if any:
  two runs on equal inputs need not get equal answers.
\<close>

type_synonym Agent = "StaticAnalysisOutput \<Rightarrow> exn + string option"

type_synonym Mastra = "nat \<Rightarrow> Agent option"

text \<open>Step 1, \<open>staticAnalysisStep.execute\<close>.\<close>

definition staticAnalysisStep :: "InputData \<Rightarrow> StaticAnalysisOutput" where
  "staticAnalysisStep inputData =
     (let result = staticAnalyzer (InputData.code inputData) (InputData.fileName inputData)
      in \<lparr>StaticAnalysisOutput.code = InputData.code inputData,
          StaticAnalysisOutput.fileName = InputData.fileName inputData,
          StaticAnalysisOutput.staticResult = result\<rparr>)"

text \<open>\<open>response.text || 'No review generated'\<close>: a missing and an empty text are both
  replaced.\<close>

definition text_or_default :: "string option \<Rightarrow> string" where
  "text_or_default t =
     (case t of None \<Rightarrow> ''No review generated''
      | Some u \<Rightarrow> if u = [] then ''No review generated'' else u)"

text \<open>Step 2, \<open>aiReviewStep.execute\<close>: it throws when no agent is registered, and when the
  call of the agent rejects.\<close>

definition aiReviewStep :: "Agent option \<Rightarrow> StaticAnalysisOutput \<Rightarrow> exn + AiReviewOutput" where
  "aiReviewStep agent inputData =
     (case agent of
        None \<Rightarrow> Inl (new_Error ''Agent not found'')
      | Some generate \<Rightarrow>
          (case generate inputData of
             Inl e \<Rightarrow> Inl e
           | Inr response_text \<Rightarrow>
               Inr \<lparr>AiReviewOutput.fileName = StaticAnalysisOutput.fileName inputData,
                    AiReviewOutput.staticResult = StaticAnalysisOutput.staticResult inputData,
                    aiReview = text_or_default response_text\<rparr>))"

text \<open>\<open>Array.prototype.join\<close>.\<close>

fun join :: "string \<Rightarrow> string list \<Rightarrow> string" where
  "join sep [] = []"
| "join sep [x] = x"
| "join sep (x # y # ys) = x @ sep @ join sep (y # ys)"

fun severity_text :: "Severity \<Rightarrow> string" where
  "severity_text Error = ''error''"
| "severity_text Warning = ''warning''"
| "severity_text Info = ''info''"

text \<open>Step 3, \<open>generateReportStep.execute\<close>. The object it returns has the three
  properties \<open>fileName\<close>, \<open>report\<close> and \<open>metrics\<close>: the static result it was given goes into
  the text of the report and into the two numbers, and is not returned.\<close>

definition generateReportStep :: "AiReviewOutput \<Rightarrow> WorkflowOutput" where
  "generateReportStep inputData =
     (let fileName = AiReviewOutput.fileName inputData;
          staticResult = AiReviewOutput.staticResult inputData;
          aiReview = AiReviewOutput.aiReview inputData;
          report =
            ''# Code Review: '' @ fileName @ ''\<newline>\<newline>'' @
            ''## '' @ bar_chart @ '' Static Analysis\<newline>'' @
            ''- Total Issues: '' @ show_nat (total' (summary staticResult)) @ ''\<newline>'' @
            ''- Errors: '' @ show_nat (errors (summary staticResult)) @ ''\<newline>'' @
            ''- Warnings: '' @ show_nat (warnings (summary staticResult)) @ ''\<newline>\<newline>'' @
            join ''\<newline>''
              (map (\<lambda>i. ''**Line '' @ show_nat (line i) @ ''** ['' @ severity_text (severity i) @
                         '']: '' @ message i @ '' ('' @ rule i @ '')'')
                   (issues staticResult)) @
            ''\<newline>\<newline>'' @
            ''## '' @ robot @ '' AI Review\<newline>'' @
            aiReview @ ''\<newline>\<newline>'' @
            ''---\<newline>'' @
            ''*Generated by Mastra Code Review*''
      in \<lparr>WorkflowOutput.fileName = fileName,
          report = report,
          metrics = \<lparr>staticIssues = total' (summary staticResult),
                     staticErrors = errors (summary staticResult)\<rparr>\<rparr>)"

text \<open>The three steps in a row, \<open>.then(staticAnalysisStep).then(aiReviewStep)
  .then(generateReportStep)\<close>: a step that throws ends the run.\<close>

definition codeReviewWorkflow :: "Agent option \<Rightarrow> InputData \<Rightarrow> exn + WorkflowOutput" where
  "codeReviewWorkflow agent inputData =
     (case aiReviewStep agent (staticAnalysisStep inputData) of
        Inl e \<Rightarrow> Inl e
      | Inr reviewed \<Rightarrow> Inr (generateReportStep reviewed))"

text \<open>
  \<open>workflow.start\<close> belongs to the library, which is not in the repository; the handler
  calls it through a cast to \<open>any\<close>. The call gives back a promise that rejects, or that
  resolves to a result whose \<open>status\<close> is \<open>success\<close> (with the output of the last step as
  \<open>result\<close>), \<open>failed\<close> (with an \<open>error\<close> whose message the handler reads, if there is one)
  or something else.

  The library is a parameter. For the run started for the file at a given index it says
  whether the call fails before any step runs, and how (the call of a method that the
  workflow object does not have throws a \<open>TypeError\<close>, for every file), and how a step
  that throws surfaces. Where the steps run and none throws, the result is a success
  with the output of the last step.
\<close>

datatype WorkflowResult =
    Status_success WorkflowOutput
  | Status_failed "string option"
  | Status_other

datatype Surfaced =
    Rejects exn
  | Resolves_failed "string option"
  | Resolves_other

record Library =
  refuses :: "nat \<Rightarrow> Surfaced option"
  surfaces :: "nat \<Rightarrow> exn \<Rightarrow> Surfaced"

definition surfaced :: "Surfaced \<Rightarrow> exn + WorkflowResult" where
  "surfaced s =
     (case s of
        Rejects e \<Rightarrow> Inl e
      | Resolves_failed m \<Rightarrow> Inr (Status_failed m)
      | Resolves_other \<Rightarrow> Inr Status_other)"

definition start :: "Mastra \<Rightarrow> Library \<Rightarrow> nat \<Rightarrow> InputData \<Rightarrow> exn + WorkflowResult" where
  "start mastra library i inputData =
     (case refuses library i of
        Some s \<Rightarrow> surfaced s
      | None \<Rightarrow>
          (case codeReviewWorkflow (mastra i) inputData of
             Inr output \<Rightarrow> Inr (Status_success output)
           | Inl e \<Rightarrow> surfaced (surfaces library i e)))"

section \<open>The webhook handler: fan-out and statistics\<close>

record SourceFile =
  path :: string
  content :: string
  size' :: nat

text \<open>
  One element of \<open>results\<close>. The handler builds it with \<open>success\<close>, \<open>fileName\<close> and either
  the spread output of the workflow or an \<open>error\<close>; the report composer also reads a
  \<open>staticResult\<close> property. A property that an object does not have is \<open>None\<close>.
\<close>

record FileReviewOutcome =
  success :: bool
  fileName :: string
  report :: "string option"
  metrics :: "Metrics option"
  error :: "string option"
  staticResult :: "StaticResult option"

text \<open>The callback of \<open>scanResult.files.map\<close>, with \<open>workflow.start\<close> as a parameter. In
  \<open>{success: true, fileName: file.path, ...output}\<close> the properties of \<open>output\<close> come last,
  so its \<open>fileName\<close> is the one that stays. The \<open>catch\<close> clause reads \<open>error.message\<close>
  before it builds the outcome: on \<open>null\<close> or \<open>undefined\<close> that read throws, and the promise
  of the callback rejects.\<close>

datatype rejection = TypeError_reading_message

definition reviewFile ::
  "(nat \<Rightarrow> InputData \<Rightarrow> exn + WorkflowResult) \<Rightarrow> nat \<Rightarrow> SourceFile \<Rightarrow>
   rejection + FileReviewOutcome" where
  "reviewFile workflow_start i file =
     (case workflow_start i \<lparr>InputData.code = content file, InputData.fileName = path file\<rparr> of
        Inr (Status_success output) \<Rightarrow>
          Inr \<lparr>success = True,
               FileReviewOutcome.fileName = WorkflowOutput.fileName output,
               FileReviewOutcome.report = Some (WorkflowOutput.report output),
               FileReviewOutcome.metrics = Some (WorkflowOutput.metrics output),
               error = None,
               FileReviewOutcome.staticResult = None\<rparr>
      | Inr (Status_failed m) \<Rightarrow>
          Inr \<lparr>success = False, FileReviewOutcome.fileName = path file,
               FileReviewOutcome.report = None, FileReviewOutcome.metrics = None,
               error = m, FileReviewOutcome.staticResult = None\<rparr>
      | Inr Status_other \<Rightarrow>
          Inr \<lparr>success = False, FileReviewOutcome.fileName = path file,
               FileReviewOutcome.report = None, FileReviewOutcome.metrics = None,
               error = Some ''Workflow execution failed'',
               FileReviewOutcome.staticResult = None\<rparr>
      | Inl Nullish \<Rightarrow> Inl TypeError_reading_message
      | Inl (Thrown m) \<Rightarrow>
          Inr \<lparr>success = False, FileReviewOutcome.fileName = path file,
               FileReviewOutcome.report = None, FileReviewOutcome.metrics = None,
               error = m, FileReviewOutcome.staticResult = None\<rparr>)"

text \<open>
  \<open>Promise.all\<close>. The promises settle in some order, given as the list of their indices
  in the order of settling. A promise that rejects makes the whole reject, with its
  reason; the value of one that fulfils is stored at the index of its promise, and the
  whole fulfils with the stored values once no slot is empty. \<open>Pending\<close>: no promise
  rejected and some never settled, so the whole never settles.
\<close>

datatype ('e, 'a) Settled = Fulfilled "'a list" | Rejected 'e | Pending

fun settle_all :: "('e + 'a) list \<Rightarrow> nat list \<Rightarrow> 'a option list \<Rightarrow> ('e, 'a) Settled" where
  "settle_all ps [] slots =
     (if list_all (\<lambda>v. v \<noteq> None) slots then Fulfilled (map the slots) else Pending)"
| "settle_all ps (i # order) slots =
     (if i < length ps
      then (case ps ! i of
              Inl e \<Rightarrow> Rejected e
            | Inr v \<Rightarrow> settle_all ps order (slots[i := Some v]))
      else settle_all ps order slots)"

definition Promise_all :: "nat list \<Rightarrow> ('e + 'a) list \<Rightarrow> ('e, 'a) Settled" where
  "Promise_all order ps = settle_all ps order (replicate (length ps) None)"

definition reviewAll ::
  "(nat \<Rightarrow> InputData \<Rightarrow> exn + WorkflowResult) \<Rightarrow> nat list \<Rightarrow> SourceFile list \<Rightarrow>
   (rejection, FileReviewOutcome) Settled" where
  "reviewAll workflow_start order files =
     Promise_all order (map (\<lambda>(i, file). reviewFile workflow_start i file) (enumerate 0 files))"

text \<open>An entry of \<open>criticalFiles\<close>.\<close>

record CriticalFile =
  fileName :: string
  errors :: nat

text \<open>\<open>r.metrics?.staticIssues\<close> and \<open>r.metrics?.staticErrors\<close>: undefined without
  \<open>metrics\<close>. Then \<open>|| 0\<close> gives 0, and a comparison \<open>> 0\<close> is false.\<close>

definition metrics_staticIssues :: "FileReviewOutcome \<Rightarrow> nat option" where
  "metrics_staticIssues r = map_option staticIssues (FileReviewOutcome.metrics r)"

definition metrics_staticErrors :: "FileReviewOutcome \<Rightarrow> nat option" where
  "metrics_staticErrors r = map_option staticErrors (FileReviewOutcome.metrics r)"

definition or_zero :: "nat option \<Rightarrow> nat" where
  "or_zero v = (case v of None \<Rightarrow> 0 | Some n \<Rightarrow> n)"

definition gt_zero :: "nat option \<Rightarrow> bool" where
  "gt_zero v = (case v of None \<Rightarrow> False | Some n \<Rightarrow> 0 < n)"

section \<open>The report composer\<close>

record ReportData =
  repository :: string
  branch :: string
  eventType :: string
  totalFiles :: nat
  totalIssues :: nat
  totalErrors :: nat
  criticalFiles :: "CriticalFile list"
  results :: "FileReviewOutcome list"

text \<open>The callback of \<open>criticalFiles.forEach\<close>.\<close>

definition priorityLine :: "string \<Rightarrow> CriticalFile \<Rightarrow> nat \<Rightarrow> string" where
  "priorityLine report0 file idx =
     report0 @ ''- **'' @ CriticalFile.fileName file @ ''** - '' @
       show_nat (CriticalFile.errors file) @ '' '' @ zh_errors @ ''\<newline>''"

definition emoji :: "Severity \<Rightarrow> string" where
  "emoji sev = (if sev = Error then red_circle else if sev = Warning then yellow_circle
                else information)"

text \<open>The callback of \<open>r.staticResult.issues.slice(0, 5).forEach\<close>.\<close>

definition issueLine :: "string \<Rightarrow> Finding \<Rightarrow> nat \<Rightarrow> string" where
  "issueLine report0 issue idx =
     report0 @ emoji (severity issue) @ '' **Line '' @ show_nat (line issue) @ ''**: '' @
       message issue @ '' ('' @ [CHR 0x60] @ rule issue @ [CHR 0x60] @ '')\<newline>''"

text \<open>The callback of \<open>topFiles.forEach\<close>. It reads \<open>r.metrics.staticIssues\<close> on elements that
  passed the filter \<open>r.metrics?.staticIssues > 0\<close>, which all have \<open>metrics\<close>.\<close>

definition fileDetail :: "string \<Rightarrow> FileReviewOutcome \<Rightarrow> nat \<Rightarrow> string" where
  "fileDetail report0 r idx =
     (let report1 = report0 @ ''### '' @ FileReviewOutcome.fileName r @ ''\<newline>\<newline>'';
          report2 = report1 @ ''**'' @ zh_issue_number @ ''**: '' @
                      show_nat (staticIssues (the (FileReviewOutcome.metrics r))) @
                      '' | **'' @ zh_error_number @ ''**: '' @
                      show_nat (staticErrors (the (FileReviewOutcome.metrics r))) @
                      ''\<newline>\<newline>'';
          report3 =
            (case FileReviewOutcome.staticResult r of
               None \<Rightarrow> report2
             | Some sr \<Rightarrow>
                 if 0 < length (issues sr)
                 then (let report4 = forEach issueLine (take 5 (issues sr)) 0 report2
                       in if 5 < length (issues sr)
                          then report4 @ ''\<newline>_... '' @ zh_and_more @ '' '' @
                                 show_nat (length (issues sr) - 5) @ '' '' @ zh_issues @
                                 ''_\<newline>''
                          else report4)
                 else report2)
      in report3 @ ''\<newline>'')"

text \<open>\<open>generateReportMarkdown\<close>. It reads the clock itself: \<open>now\<close> stands for what
  \<open>new Date().toISOString()\<close> returns at the call.\<close>

definition generateReportMarkdown :: "string \<Rightarrow> ReportData \<Rightarrow> string" where
  "generateReportMarkdown now data =
     (let report = ''# '' @ robot @ '' AI '' @ zh_code_review_report @ ''\<newline>\<newline>'';
          report = report @ ''**'' @ zh_repository @ ''**: '' @ repository data @ ''\<newline>'';
          report = report @ ''**'' @ zh_branch @ ''**: '' @ branch data @ ''\<newline>'';
          report = report @ ''**'' @ zh_event @ ''**: '' @ eventType data @ ''\<newline>'';
          report = report @ ''**'' @ zh_time @ ''**: '' @ now @ ''\<newline>\<newline>'';
          report = report @ ''## '' @ bar_chart @ '' '' @ zh_review_summary @ ''\<newline>\<newline>'';
          report = report @ ''| '' @ zh_indicator @ '' | '' @ zh_quantity @ '' |\<newline>'';
          report = report @ ''|------|------|\<newline>'';
          report = report @ ''| '' @ zh_scanned_files @ '' | '' @
                     show_nat (totalFiles data) @ '' |\<newline>'';
          report = report @ ''| '' @ zh_issues_found @ '' | '' @
                     show_nat (ReportData.totalIssues data) @ '' |\<newline>'';
          report = report @ ''| '' @ zh_error_count @ '' | '' @
                     show_nat (ReportData.totalErrors data) @ '' |\<newline>'';
          report = report @ ''| '' @ zh_key_files @ '' | '' @
                     show_nat (length (ReportData.criticalFiles data)) @ '' |\<newline>\<newline>'';
          report =
            (if 0 < ReportData.totalErrors data
             then (let report = report @ ''## '' @ warning_sign @ '' '' @ zh_priority_files @
                                  ''\<newline>\<newline>'';
                       report = forEach priorityLine (ReportData.criticalFiles data) 0 report
                   in report @ ''\<newline>'')
             else report);
          report =
            (if 0 < ReportData.totalIssues data
             then (let report = report @ ''## '' @ clipboard @ '' '' @ zh_detailed_issues @
                                  ''\<newline>\<newline>'';
                       topFiles =
                         take 10 (filter (\<lambda>r. gt_zero (metrics_staticIssues r))
                                    (ReportData.results data));
                       report = forEach fileDetail topFiles 0 report
                   in if 10 < length (filter (\<lambda>r. gt_zero (metrics_staticIssues r))
                                        (ReportData.results data))
                      then report @ ''\<newline>_... '' @ zh_and_more @ '' '' @
                             show_nat (length (filter (\<lambda>r. gt_zero (metrics_staticIssues r))
                                                 (ReportData.results data)) - 10) @
                             '' '' @ zh_files_with_issues @ ''_\<newline>\<newline>''
                      else report)
             else (let report = report @ ''## '' @ check_mark @ '' '' @ zh_great @
                                  ''\<newline>\<newline>''
                   in report @ zh_no_issues @ ''\<newline>\<newline>''));
          report = report @ ''---\<newline>\<newline>''
      in report @ robot @ '' _'' @ zh_report_by @ '' [Mastra AI '' @ zh_review_system @
           ''](https://github.com/mastra) '' @ zh_generated @ ''_\<newline>'')"

text \<open>Steps 7 and 8 of the handler: the statistics over \<open>results\<close>, the array that
  \<open>Promise.all\<close> fulfilled with, and the argument of \<open>generateReportMarkdown\<close> built from
  them. In the callback of \<open>map\<close>, \<open>r.metrics.staticErrors\<close> is read on elements that passed
  the filter \<open>r.metrics?.staticErrors > 0\<close>, which all have \<open>metrics\<close>.\<close>

definition reportData ::
  "string \<Rightarrow> string \<Rightarrow> string \<Rightarrow> string \<Rightarrow> nat \<Rightarrow> FileReviewOutcome list \<Rightarrow> ReportData" where
  "reportData owner repo branch0 eventType0 totalFiles0 results0 =
     (let successResults = filter success results0;
          totalIssues = foldl (\<lambda>sum r. sum + or_zero (metrics_staticIssues r)) 0 successResults;
          totalErrors = foldl (\<lambda>sum r. sum + or_zero (metrics_staticErrors r)) 0 successResults;
          criticalFiles =
            map (\<lambda>r. \<lparr>CriticalFile.fileName = FileReviewOutcome.fileName r,
                       errors = staticErrors (the (FileReviewOutcome.metrics r))\<rparr>)
                (filter (\<lambda>r. gt_zero (metrics_staticErrors r)) successResults)
      in \<lparr>repository = owner @ ''/'' @ repo,
          branch = branch0,
          eventType = eventType0,
          totalFiles = totalFiles0,
          totalIssues = totalIssues,
          totalErrors = totalErrors,
          criticalFiles = criticalFiles,
          results = successResults\<rparr>)"

section \<open>The layout of the report\<close>

text \<open>
  The parts of the report as the specification names them: the title with the metadata,
  the summary table, the section of the files to fix first, the detailed list with one
  block per file and, in a block, one line per finding. \<open>generateReportMarkdown\<close> builds
  one string by appending; the theorems below show that the string is made of these
  parts.
\<close>

definition reportTitle :: "ReportData \<Rightarrow> string" where
  "reportTitle data =
     ''# '' @ robot @ '' AI '' @ zh_code_review_report @ ''\<newline>\<newline>'' @
     ''**'' @ zh_repository @ ''**: '' @ repository data @ ''\<newline>'' @
     ''**'' @ zh_branch @ ''**: '' @ branch data @ ''\<newline>'' @
     ''**'' @ zh_event @ ''**: '' @ eventType data @ ''\<newline>'' @
     ''**'' @ zh_time @ ''**: ''"

definition summaryTable :: "ReportData \<Rightarrow> string" where
  "summaryTable data =
     ''\<newline>\<newline>'' @
     ''## '' @ bar_chart @ '' '' @ zh_review_summary @ ''\<newline>\<newline>'' @
     ''| '' @ zh_indicator @ '' | '' @ zh_quantity @ '' |\<newline>'' @
     ''|------|------|\<newline>'' @
     ''| '' @ zh_scanned_files @ '' | '' @ show_nat (totalFiles data) @ '' |\<newline>'' @
     ''| '' @ zh_issues_found @ '' | '' @ show_nat (ReportData.totalIssues data) @ '' |\<newline>'' @
     ''| '' @ zh_error_count @ '' | '' @ show_nat (ReportData.totalErrors data) @ '' |\<newline>'' @
     ''| '' @ zh_key_files @ '' | '' @ show_nat (length (ReportData.criticalFiles data)) @
     '' |\<newline>\<newline>''"

definition priorityBullet :: "CriticalFile \<Rightarrow> string" where
  "priorityBullet file =
     ''- **'' @ CriticalFile.fileName file @ ''** - '' @ show_nat (CriticalFile.errors file) @
     '' '' @ zh_errors @ ''\<newline>''"

definition prioritySection :: "ReportData \<Rightarrow> string" where
  "prioritySection data =
     (if 0 < ReportData.totalErrors data
      then ''## '' @ warning_sign @ '' '' @ zh_priority_files @ ''\<newline>\<newline>'' @
           concat (map priorityBullet (ReportData.criticalFiles data)) @ ''\<newline>''
      else [])"

text \<open>The outcomes that qualify for a block, and the ones that get one.\<close>

definition qualifying :: "ReportData \<Rightarrow> FileReviewOutcome list" where
  "qualifying data = filter (\<lambda>r. gt_zero (metrics_staticIssues r)) (ReportData.results data)"

definition topFiles :: "ReportData \<Rightarrow> FileReviewOutcome list" where
  "topFiles data = take 10 (qualifying data)"

text \<open>The findings that an outcome carries, and the ones that get a line.\<close>

definition findings :: "FileReviewOutcome \<Rightarrow> Finding list" where
  "findings r = (case FileReviewOutcome.staticResult r of None \<Rightarrow> [] | Some sr \<Rightarrow> issues sr)"

definition shownFindings :: "FileReviewOutcome \<Rightarrow> Finding list" where
  "shownFindings r = take 5 (findings r)"

definition findingLine :: "Finding \<Rightarrow> string" where
  "findingLine issue =
     (case severity issue of Error \<Rightarrow> red_circle | Warning \<Rightarrow> yellow_circle
      | Info \<Rightarrow> information) @
     '' **Line '' @ show_nat (line issue) @ ''**: '' @ message issue @
     '' ('' @ [CHR 0x60] @ rule issue @ [CHR 0x60] @ '')\<newline>''"

definition omittedFindings :: "FileReviewOutcome \<Rightarrow> string" where
  "omittedFindings r =
     (if 5 < length (findings r)
      then ''\<newline>_... '' @ zh_and_more @ '' '' @ show_nat (length (findings r) - 5) @ '' '' @
           zh_issues @ ''_\<newline>''
      else [])"

definition blockHeading :: "FileReviewOutcome \<Rightarrow> string" where
  "blockHeading r =
     ''### '' @ FileReviewOutcome.fileName r @ ''\<newline>\<newline>'' @
     ''**'' @ zh_issue_number @ ''**: '' @ show_nat (or_zero (metrics_staticIssues r)) @
     '' | **'' @ zh_error_number @ ''**: '' @ show_nat (or_zero (metrics_staticErrors r)) @
     ''\<newline>\<newline>''"

definition detailBlock :: "FileReviewOutcome \<Rightarrow> string" where
  "detailBlock r =
     blockHeading r @ concat (map findingLine (shownFindings r)) @ omittedFindings r @
     ''\<newline>''"

definition omittedFiles :: "ReportData \<Rightarrow> string" where
  "omittedFiles data =
     (if 10 < length (qualifying data)
      then ''\<newline>_... '' @ zh_and_more @ '' '' @ show_nat (length (qualifying data) - 10) @
           '' '' @ zh_files_with_issues @ ''_\<newline>\<newline>''
      else [])"

definition detailHeading :: string where
  "detailHeading = ''## '' @ clipboard @ '' '' @ zh_detailed_issues @ ''\<newline>\<newline>''"

definition noIssuesSection :: string where
  "noIssuesSection =
     ''## '' @ check_mark @ '' '' @ zh_great @ ''\<newline>\<newline>'' @
     zh_no_issues @ ''\<newline>\<newline>''"

definition detailSection :: "ReportData \<Rightarrow> string" where
  "detailSection data =
     (if 0 < ReportData.totalIssues data
      then detailHeading @ concat (map detailBlock (topFiles data)) @ omittedFiles data
      else noIssuesSection)"

definition reportFooter :: string where
  "reportFooter =
     ''---\<newline>\<newline>'' @
     robot @ '' _'' @ zh_report_by @ '' [Mastra AI '' @ zh_review_system @
     ''](https://github.com/mastra) '' @ zh_generated @ ''_\<newline>''"

section \<open>Sample data\<close>

text \<open>Concrete inputs at which the theorems below are evaluated. First an outcome that
  carries six findings, and a report of eleven such outcomes.\<close>

definition sample_finding :: "nat \<Rightarrow> Finding" where
  "sample_finding n =
     \<lparr>line = n, severity = Warning, message = ''Debug statement found'', rule = ''no-console''\<rparr>"

definition sample_outcome :: FileReviewOutcome where
  "sample_outcome =
     \<lparr>success = True, FileReviewOutcome.fileName = ''src/app.ts'',
      FileReviewOutcome.report = Some ''# Code Review: src/app.ts'',
      FileReviewOutcome.metrics = Some \<lparr>staticIssues = 6, staticErrors = 0\<rparr>,
      error = None,
      FileReviewOutcome.staticResult =
        Some \<lparr>issues = map sample_finding [1, 2, 3, 4, 5, 6],
              summary = \<lparr>total' = 6, errors = 0, warnings = 6\<rparr>\<rparr>\<rparr>"

definition sample_data :: ReportData where
  "sample_data =
     \<lparr>repository = ''octo/demo'', branch = ''main'', eventType = ''push'', totalFiles = 11,
      ReportData.totalIssues = 66, ReportData.totalErrors = 0, ReportData.criticalFiles = [],
      ReportData.results = replicate 11 sample_outcome\<rparr>"









text \<open>Four outcomes: two reviews that succeeded, one that failed as the handler records it,
  and a failed one that carries metrics all the same.\<close>

definition reviewed_a :: FileReviewOutcome where
  "reviewed_a =
     \<lparr>success = True, FileReviewOutcome.fileName = ''src/a.ts'',
      FileReviewOutcome.report = Some ''# Code Review: src/a.ts'',
      FileReviewOutcome.metrics = Some \<lparr>staticIssues = 3, staticErrors = 1\<rparr>,
      error = None, FileReviewOutcome.staticResult = None\<rparr>"

definition failed_b :: FileReviewOutcome where
  "failed_b =
     \<lparr>success = False, FileReviewOutcome.fileName = ''src/b.ts'',
      FileReviewOutcome.report = None, FileReviewOutcome.metrics = None,
      error = Some ''workflow.start is not a function'',
      FileReviewOutcome.staticResult = None\<rparr>"

definition reviewed_c :: FileReviewOutcome where
  "reviewed_c =
     \<lparr>success = True, FileReviewOutcome.fileName = ''src/c.ts'',
      FileReviewOutcome.report = Some ''# Code Review: src/c.ts'',
      FileReviewOutcome.metrics = Some \<lparr>staticIssues = 2, staticErrors = 0\<rparr>,
      error = None, FileReviewOutcome.staticResult = None\<rparr>"

definition failed_d :: FileReviewOutcome where
  "failed_d =
     \<lparr>success = False, FileReviewOutcome.fileName = ''src/d.ts'',
      FileReviewOutcome.report = None,
      FileReviewOutcome.metrics = Some \<lparr>staticIssues = 7, staticErrors = 7\<rparr>,
      error = Some ''boom'', FileReviewOutcome.staticResult = None\<rparr>"

definition sample_results :: "FileReviewOutcome list" where
  "sample_results = [reviewed_a, failed_b, reviewed_c, failed_d]"

section \<open>Properties of the static analyzer\<close>

lemma checkLine_append: "checkLine acc ln idx = acc @ checkLine [] ln idx"
  by (simp add: checkLine_def Let_def)

lemma forEach_checkLine:
  "forEach checkLine ls idx acc =
     acc @ concat (map (\<lambda>(i, l). checkLine [] l i) (enumerate idx ls))"
proof (induction ls arbitrary: idx acc)
  case Nil
  show ?case by simp
next
  case (Cons l ls)
  have "forEach checkLine (l # ls) idx acc = forEach checkLine ls (Suc idx) (checkLine acc l idx)"
    by simp
  also have "\<dots> = checkLine acc l idx @
      concat (map (\<lambda>(i, l). checkLine [] l i) (enumerate (Suc idx) ls))"
    by (rule Cons.IH)
  also have "checkLine acc l idx = acc @ checkLine [] l idx"
    by (rule checkLine_append)
  finally show ?case by simp
qed

lemma issues_staticAnalyzer:
  "issues (staticAnalyzer src fn) =
     concat (map (\<lambda>(i, l). checkLine [] l i) (enumerate 0 (split CHR ''\<newline>'' src)))"
  by (simp add: staticAnalyzer_def Let_def forEach_checkLine)

lemma length_checkLine: "length (checkLine [] l i) \<le> 3"
  by (simp add: checkLine_def Let_def)

lemma line_checkLine: "f \<in> set (checkLine [] l i) \<Longrightarrow> line f = i + 1"
  by (auto simp add: checkLine_def Let_def split: if_splits)

lemma filter_line_checkLine:
  "filter (\<lambda>f. line f = n) (checkLine [] l i) = (if n = i + 1 then checkLine [] l i else [])"
proof (cases "n = i + 1")
  case True
  then have "\<forall>f \<in> set (checkLine [] l i). line f = n"
    by (simp add: line_checkLine)
  then show ?thesis using True by simp
next
  case False
  then have "\<forall>f \<in> set (checkLine [] l i). line f \<noteq> n"
    by (auto dest: line_checkLine)
  then show ?thesis using False by (simp add: filter_empty_conv)
qed

lemma filter_line_concat:
  "filter (\<lambda>f. line f = n) (concat (map (\<lambda>(i, l). checkLine [] l i) (enumerate k ls))) =
     (if k < n \<and> n \<le> k + length ls then checkLine [] (ls ! (n - 1 - k)) (n - 1) else [])"
proof (induction ls arbitrary: k)
  case Nil
  show ?case by auto
next
  case (Cons l ls)
  show ?case
  proof (cases "n = k + 1")
    case True
    have "filter (\<lambda>f. line f = n)
            (concat (map (\<lambda>(i, l). checkLine [] l i) (enumerate (Suc k) ls))) = []"
      using Cons.IH [of "Suc k"] True by simp
    moreover have "filter (\<lambda>f. line f = n) (checkLine [] l k) = checkLine [] l k"
      using True by (simp add: filter_line_checkLine)
    ultimately show ?thesis using True by simp
  next
    case False
    have "filter (\<lambda>f. line f = n) (checkLine [] l k) = []"
      using False by (simp add: filter_line_checkLine)
    then show ?thesis
      using False Cons.IH [of "Suc k"] by (auto simp add: nth_Cons')
  qed
qed

lemma length_concat_le:
  "length (concat (map (\<lambda>(i, l). checkLine [] l i) (enumerate k ls))) \<le> 3 * length ls"
proof (induction ls arbitrary: k)
  case Nil
  show ?case by simp
next
  case (Cons l ls)
  have "length (checkLine [] l k) \<le> 3" by (rule length_checkLine)
  moreover have "length (concat (map (\<lambda>(i, l). checkLine [] l i) (enumerate (Suc k) ls))) \<le> 3 * length ls"
    by (rule Cons.IH)
  ultimately show ?case by simp
qed

lemma count_disjoint_le:
  "(\<And>x. \<not> (P x \<and> Q x)) \<Longrightarrow> length (filter P xs) + length (filter Q xs) \<le> length xs"
  by (induction xs) auto

lemma map_enumerate_nth:
  "map (\<lambda>(i, l). g l i) (enumerate 0 ls) = map (\<lambda>j. g (ls ! j) j) [0..<length ls]"
  by (rule nth_equalityI) (simp_all add: nth_enumerate_eq)

lemma issues_forEach:
  "issues (staticAnalyzer src fn) = forEach checkLine (split CHR ''\<newline>'' src) 0 []"
  by (simp add: staticAnalyzer_def Let_def)

lemma summary_staticAnalyzer:
  "summary (staticAnalyzer src fn) =
     \<lparr>total' = length (issues (staticAnalyzer src fn)),
      errors = length (filter (\<lambda>i. severity i = Error) (issues (staticAnalyzer src fn))),
      warnings = length (filter (\<lambda>i. severity i = Warning) (issues (staticAnalyzer src fn)))\<rparr>"
  by (simp add: staticAnalyzer_def Let_def)

text \<open>
  Claim C6. For every code string and file name, the summary returned by the analyzer has
  \<open>total\<close> equal to the number of issues, \<open>errors\<close> equal to the number of issues of
  severity error, \<open>warnings\<close> equal to the number of severity warning, and so
  \<open>errors + warnings \<le> total\<close>.
\<close>

theorem staticAnalyzer_summary_counts:
  "total' (summary (staticAnalyzer src fn)) = length (issues (staticAnalyzer src fn)) \<and>
   Summary.errors (summary (staticAnalyzer src fn)) =
     length (filter (\<lambda>i. severity i = Error) (issues (staticAnalyzer src fn))) \<and>
   warnings (summary (staticAnalyzer src fn)) =
     length (filter (\<lambda>i. severity i = Warning) (issues (staticAnalyzer src fn))) \<and>
   Summary.errors (summary (staticAnalyzer src fn)) + warnings (summary (staticAnalyzer src fn))
     \<le> total' (summary (staticAnalyzer src fn))"
proof -
  have "length (filter (\<lambda>i. severity i = Error) (issues (staticAnalyzer src fn))) +
        length (filter (\<lambda>i. severity i = Warning) (issues (staticAnalyzer src fn)))
        \<le> length (issues (staticAnalyzer src fn))"
    by (rule count_disjoint_le) simp
  then show ?thesis
    by (simp only: summary_staticAnalyzer Summary.simps simp_thms)
qed

text \<open>
  Claim C8. On the empty string the analyzer returns no issue and the summary
  \<open>{total: 0, errors: 0, warnings: 0}\<close>, whatever the file name.
\<close>

theorem staticAnalyzer_empty:
  "staticAnalyzer [] fn = \<lparr>issues = [], summary = \<lparr>total' = 0, errors = 0, warnings = 0\<rparr>\<rparr>"
  by code_simp

text \<open>
  Claim C9. Every finding has a line number between 1 and the number of lines that
  splitting the code on line feeds gives; at most three findings share a line number; so
  there are at most three times as many findings as lines.
\<close>

theorem staticAnalyzer_line_bounds:
  "(\<forall>f \<in> set (issues (staticAnalyzer src fn)).
      1 \<le> line f \<and> line f \<le> length (split CHR ''\<newline>'' src)) \<and>
   (\<forall>n. length (filter (\<lambda>f. line f = n) (issues (staticAnalyzer src fn))) \<le> 3) \<and>
   length (issues (staticAnalyzer src fn)) \<le> 3 * length (split CHR ''\<newline>'' src)"
proof -
  have "1 \<le> line f \<and> line f \<le> length (split CHR ''\<newline>'' src)"
    if "f \<in> set (issues (staticAnalyzer src fn))" for f
  proof -
  from that obtain i l where il: "(i, l) \<in> set (enumerate 0 (split CHR ''\<newline>'' src))"
    and f: "f \<in> set (checkLine [] l i)"
    by (auto simp add: issues_staticAnalyzer)
  from il have "i < length (split CHR ''\<newline>'' src)"
    by (simp add: in_set_enumerate_eq)
  moreover from f have "line f = i + 1" by (rule line_checkLine)
  ultimately show ?thesis by simp
  qed
  moreover have "length (filter (\<lambda>f. line f = n) (issues (staticAnalyzer src fn))) \<le> 3" for n
    by (simp add: issues_staticAnalyzer filter_line_concat length_checkLine)
  moreover have "length (issues (staticAnalyzer src fn)) \<le> 3 * length (split CHR ''\<newline>'' src)"
    by (simp add: issues_staticAnalyzer length_concat_le)
  ultimately show ?thesis by blast
qed

text \<open>The bounds at a file of two lines with three findings.\<close>

theorem staticAnalyzer_line_bounds_witness:
  \<open>issues (staticAnalyzer ''console.log(1) // TODO\<newline>const password = "hunter2"'' ''a.ts'') =
     [\<lparr>line = 1, severity = Warning, message = ''Debug statement found'', rule = ''no-console''\<rparr>,
      \<lparr>line = 1, severity = Info, message = ''TODO comment found'', rule = ''todo-comment''\<rparr>,
      \<lparr>line = 2, severity = Error, message = ''Hardcoded secret detected'',
         rule = ''no-hardcoded-secrets''\<rparr>] \<and>
   length (split CHR ''\<newline>'' ''console.log(1) // TODO\<newline>const password = "hunter2"'') = 2 \<and>
   list_all (\<lambda>f. 1 \<le> line f \<and> line f \<le> 2)
     (issues (staticAnalyzer ''console.log(1) // TODO\<newline>const password = "hunter2"'' ''a.ts'')) \<and>
   length (issues (staticAnalyzer ''console.log(1) // TODO\<newline>const password = "hunter2"''
     ''a.ts'')) \<le> 3 * 2\<close>
proof -
  have ev: \<open>issues (staticAnalyzer ''console.log(1) // TODO\<newline>const password = "hunter2"'' ''a.ts'') =
     [\<lparr>line = 1, severity = Warning, message = ''Debug statement found'', rule = ''no-console''\<rparr>,
      \<lparr>line = 1, severity = Info, message = ''TODO comment found'', rule = ''todo-comment''\<rparr>,
      \<lparr>line = 2, severity = Error, message = ''Hardcoded secret detected'',
         rule = ''no-hardcoded-secrets''\<rparr>]\<close>
    unfolding issues_forEach by code_simp
  have ln: \<open>length (split CHR ''\<newline>'' ''console.log(1) // TODO\<newline>const password = "hunter2"'') = 2\<close>
    by code_simp
  show ?thesis
    using staticAnalyzer_line_bounds
      [of \<open>''console.log(1) // TODO\<newline>const password = "hunter2"''\<close> "''a.ts''"]
    unfolding ln by (simp add: ev list_all_iff)
qed

text \<open>
  Claim C10. The rule for hardcoded secrets does not look at the context: the assignment
  inside a comment, \<^verbatim>\<open>// password = "x"\<close>, and the key word at the end of a longer
  identifier, \<^verbatim>\<open>mytoken = "y"\<close>, both give a finding of severity error with the rule
  \<open>no-hardcoded-secrets\<close>.
\<close>

theorem secrets_rule_ignores_context:
  \<open>issues (staticAnalyzer ''// password = "x"'' fn) =
     [\<lparr>line = 1, severity = Error, message = ''Hardcoded secret detected'',
        rule = ''no-hardcoded-secrets''\<rparr>] \<and>
   issues (staticAnalyzer ''mytoken = "y"'' fn) =
     [\<lparr>line = 1, severity = Error, message = ''Hardcoded secret detected'',
        rule = ''no-hardcoded-secrets''\<rparr>]\<close>
  unfolding issues_forEach by code_simp

text \<open>
  Claim C7 says that a line matching the debug pattern and the secret pattern gives
  exactly two findings. A line that also matches the TODO pattern gives three.
\<close>

theorem line_with_three_findings:
  \<open>test no_console ''console.log(password = "x") // TODO'' \<and>
   test no_hardcoded_secrets ''console.log(password = "x") // TODO'' \<and>
   issues (staticAnalyzer ''console.log(password = "x") // TODO'' ''a.ts'') =
     [\<lparr>line = 1, severity = Warning, message = ''Debug statement found'', rule = ''no-console''\<rparr>,
      \<lparr>line = 1, severity = Error, message = ''Hardcoded secret detected'',
         rule = ''no-hardcoded-secrets''\<rparr>,
      \<lparr>line = 1, severity = Info, message = ''TODO comment found'', rule = ''todo-comment''\<rparr>]\<close>
  unfolding issues_forEach by code_simp

text \<open>
  Claim C7, amended. The findings of line \<open>i + 1\<close> are those of the rules that match
  the line, at most one each, in the order \<open>no-console\<close>, \<open>no-hardcoded-secrets\<close>,
  \<open>todo-comment\<close>; a line that matches the debug pattern and the secret pattern and does
  not match the TODO pattern gives exactly these two findings, in this order; and the issues
  of the file are the findings of its lines, one line after the other.
\<close>

theorem findings_per_line:
  "i < length (split CHR ''\<newline>'' src) \<Longrightarrow>
   filter (\<lambda>f. line f = i + 1) (issues (staticAnalyzer src fn)) =
     (if test no_console (split CHR ''\<newline>'' src ! i)
      then [\<lparr>line = i + 1, severity = Warning, message = ''Debug statement found'',
              rule = ''no-console''\<rparr>] else []) @
     (if test no_hardcoded_secrets (split CHR ''\<newline>'' src ! i)
      then [\<lparr>line = i + 1, severity = Error, message = ''Hardcoded secret detected'',
              rule = ''no-hardcoded-secrets''\<rparr>] else []) @
     (if test todo_comment (split CHR ''\<newline>'' src ! i)
      then [\<lparr>line = i + 1, severity = Info, message = ''TODO comment found'',
              rule = ''todo-comment''\<rparr>] else []) \<and>
   (test no_console (split CHR ''\<newline>'' src ! i) \<and>
    test no_hardcoded_secrets (split CHR ''\<newline>'' src ! i) \<and>
    \<not> test todo_comment (split CHR ''\<newline>'' src ! i) \<longrightarrow>
    filter (\<lambda>f. line f = i + 1) (issues (staticAnalyzer src fn)) =
      [\<lparr>line = i + 1, severity = Warning, message = ''Debug statement found'',
         rule = ''no-console''\<rparr>,
       \<lparr>line = i + 1, severity = Error, message = ''Hardcoded secret detected'',
         rule = ''no-hardcoded-secrets''\<rparr>]) \<and>
   issues (staticAnalyzer src fn) =
     concat (map (\<lambda>j. filter (\<lambda>f. line f = j + 1) (issues (staticAnalyzer src fn)))
                 [0..<length (split CHR ''\<newline>'' src)])"
proof -
  assume i: "i < length (split CHR ''\<newline>'' src)"
  have per_line: "filter (\<lambda>f. line f = j + 1) (issues (staticAnalyzer src fn)) =
      checkLine [] (split CHR ''\<newline>'' src ! j) j"
    if "j < length (split CHR ''\<newline>'' src)" for j
    using that by (simp add: issues_staticAnalyzer filter_line_concat)
  have rules: "checkLine [] l k =
     (if test no_console l
      then [\<lparr>line = k + 1, severity = Warning, message = ''Debug statement found'',
              rule = ''no-console''\<rparr>] else []) @
     (if test no_hardcoded_secrets l
      then [\<lparr>line = k + 1, severity = Error, message = ''Hardcoded secret detected'',
              rule = ''no-hardcoded-secrets''\<rparr>] else []) @
     (if test todo_comment l
      then [\<lparr>line = k + 1, severity = Info, message = ''TODO comment found'',
              rule = ''todo-comment''\<rparr>] else [])" for l k
    by (simp add: checkLine_def Let_def)
  have order: "issues (staticAnalyzer src fn) =
     concat (map (\<lambda>j. filter (\<lambda>f. line f = j + 1) (issues (staticAnalyzer src fn)))
                 [0..<length (split CHR ''\<newline>'' src)])"
  proof -
    have a: "issues (staticAnalyzer src fn) =
          concat (map (\<lambda>j. checkLine [] (split CHR ''\<newline>'' src ! j) j)
            [0..<length (split CHR ''\<newline>'' src)])"
      by (simp add: issues_staticAnalyzer map_enumerate_nth)
    have b: "map (\<lambda>j. filter (\<lambda>f. line f = j + 1) (issues (staticAnalyzer src fn)))
            [0..<length (split CHR ''\<newline>'' src)] =
          map (\<lambda>j. checkLine [] (split CHR ''\<newline>'' src ! j) j)
            [0..<length (split CHR ''\<newline>'' src)]"
      by (rule map_cong) (simp_all only: per_line atLeastLessThan_iff set_upt)
    show ?thesis unfolding b by (rule a)
  qed
  show ?thesis
    using per_line [OF i] rules [of "split CHR ''\<newline>'' src ! i" i] order
    by simp
qed

text \<open>The second line of a file of two lines, with a debug statement and a secret.\<close>

theorem findings_per_line_witness:
  \<open>filter (\<lambda>f. line f = 1 + 1)
     (issues (staticAnalyzer ''let a = 1\<newline>console.log(token = "t")'' ''a.ts'')) =
     [\<lparr>line = 2, severity = Warning, message = ''Debug statement found'', rule = ''no-console''\<rparr>,
      \<lparr>line = 2, severity = Error, message = ''Hardcoded secret detected'',
         rule = ''no-hardcoded-secrets''\<rparr>]\<close>
proof -
  have ln: \<open>split CHR ''\<newline>'' ''let a = 1\<newline>console.log(token = "t")'' =
              [''let a = 1'', ''console.log(token = "t")'']\<close>
    by code_simp
  have t1: \<open>test no_console ''console.log(token = "t")''\<close> by code_simp
  have t2: \<open>test no_hardcoded_secrets ''console.log(token = "t")''\<close> by code_simp
  have t3: \<open>\<not> test todo_comment ''console.log(token = "t")''\<close> by code_simp
  show ?thesis
    using findings_per_line [of 1 \<open>''let a = 1\<newline>console.log(token = "t")''\<close> "''a.ts''"]
    unfolding ln using t1 t2 t3 by simp
qed

section \<open>Properties of the report composer\<close>

lemma forEach_append:
  "(\<And>acc x i. f acc x i = acc @ g x) \<Longrightarrow> forEach f xs idx acc = acc @ concat (map g xs)"
  by (induction xs arbitrary: idx acc) simp_all

lemma forEach_priorityLine:
  "forEach priorityLine fs idx rep = rep @ concat (map priorityBullet fs)"
  by (rule forEach_append) (simp add: priorityLine_def priorityBullet_def)

lemma emoji_cases:
  "emoji sev = (case sev of Error \<Rightarrow> red_circle | Warning \<Rightarrow> yellow_circle | Info \<Rightarrow> information)"
  by (cases sev) (simp_all add: emoji_def)

lemma forEach_issueLine:
  "forEach issueLine fs idx rep = rep @ concat (map findingLine fs)"
  by (rule forEach_append) (simp add: issueLine_def findingLine_def emoji_cases)

lemma metrics_present:
  "gt_zero (metrics_staticIssues r) \<Longrightarrow> FileReviewOutcome.metrics r \<noteq> None"
  by (cases "FileReviewOutcome.metrics r") (simp_all add: gt_zero_def metrics_staticIssues_def)

lemma fileDetail_block:
  "gt_zero (metrics_staticIssues r) \<Longrightarrow> fileDetail rep r idx = rep @ detailBlock r"
  by (auto simp add: fileDetail_def detailBlock_def blockHeading_def shownFindings_def
      findings_def omittedFindings_def forEach_issueLine Let_def or_zero_def gt_zero_def
      metrics_staticIssues_def metrics_staticErrors_def split: option.splits)

lemma forEach_fileDetail:
  "\<forall>r \<in> set rs. gt_zero (metrics_staticIssues r) \<Longrightarrow>
   forEach fileDetail rs idx rep = rep @ concat (map detailBlock rs)"
  by (induction rs arbitrary: idx rep) (simp_all add: fileDetail_block)

lemma topFiles_qualify: "\<forall>r \<in> set (topFiles d). gt_zero (metrics_staticIssues r)"
  by (auto simp add: topFiles_def qualifying_def dest: in_set_takeD)

lemma report_layout:
  "generateReportMarkdown now d =
     reportTitle d @ now @ summaryTable d @ prioritySection d @ detailSection d @ reportFooter"
proof -
  have top: "forEach fileDetail (take 10 (qualifying d)) 0 rep =
      rep @ concat (map detailBlock (take 10 (qualifying d)))" for rep
    using forEach_fileDetail [OF topFiles_qualify, of d 0 rep] by (simp add: topFiles_def)
  show ?thesis
    unfolding generateReportMarkdown_def Let_def forEach_priorityLine qualifying_def [symmetric] top
    by (simp add: reportTitle_def summaryTable_def prioritySection_def detailSection_def
        reportFooter_def detailHeading_def noIssuesSection_def omittedFiles_def topFiles_def)
qed

lemma length_topFiles: "length (topFiles d) \<le> 10"
  by (simp add: topFiles_def)

lemma length_shownFindings: "length (shownFindings r) \<le> 5"
  by (simp add: shownFindings_def)

text \<open>
  Claim C5. The report is made of the title, the time stamp, the summary table, the
  section of the files to fix first, the detailed list and the footer. The section of the
  files to fix first is empty when \<open>totalErrors\<close> is 0. The detailed list has one block for
  each of at most 10 outcomes, and a block has one line for each of at most 5 findings.
  With more than 10 qualifying outcomes, 10 get a block and a note gives the number of
  the others; with more than 5 findings, 5 get a line and a note gives the number of the
  others.
\<close>

theorem report_sections_bounded:
  "generateReportMarkdown now d =
     reportTitle d @ now @ summaryTable d @ prioritySection d @ detailSection d @ reportFooter \<and>
   (ReportData.totalErrors d = 0 \<longrightarrow> prioritySection d = []) \<and>
   (ReportData.totalIssues d = 0 \<longrightarrow> detailSection d = noIssuesSection) \<and>
   (0 < ReportData.totalIssues d \<longrightarrow>
      detailSection d = detailHeading @ concat (map detailBlock (topFiles d)) @ omittedFiles d) \<and>
   length (topFiles d) \<le> 10 \<and>
   detailBlock r =
     blockHeading r @ concat (map findingLine (shownFindings r)) @ omittedFindings r @
     ''\<newline>'' \<and>
   length (shownFindings r) \<le> 5 \<and>
   (10 < length (qualifying d) \<longrightarrow>
      length (topFiles d) = 10 \<and>
      omittedFiles d =
        ''\<newline>_... '' @ zh_and_more @ '' '' @ show_nat (length (qualifying d) - 10) @ '' '' @
        zh_files_with_issues @ ''_\<newline>\<newline>'') \<and>
   (5 < length (findings r) \<longrightarrow>
      length (shownFindings r) = 5 \<and>
      omittedFindings r =
        ''\<newline>_... '' @ zh_and_more @ '' '' @ show_nat (length (findings r) - 5) @ '' '' @
        zh_issues @ ''_\<newline>'')"
proof -
  have "generateReportMarkdown now d =
      reportTitle d @ now @ summaryTable d @ prioritySection d @ detailSection d @ reportFooter"
    by (rule report_layout)
  moreover have "ReportData.totalErrors d = 0 \<longrightarrow> prioritySection d = []"
    by (simp add: prioritySection_def)
  moreover have "ReportData.totalIssues d = 0 \<longrightarrow> detailSection d = noIssuesSection"
    by (simp add: detailSection_def)
  moreover have "0 < ReportData.totalIssues d \<longrightarrow>
      detailSection d = detailHeading @ concat (map detailBlock (topFiles d)) @ omittedFiles d"
    by (simp add: detailSection_def)
  moreover have "length (topFiles d) \<le> 10" by (rule length_topFiles)
  moreover have "detailBlock r =
     blockHeading r @ concat (map findingLine (shownFindings r)) @ omittedFindings r @
     ''\<newline>''"
    by (simp add: detailBlock_def)
  moreover have "length (shownFindings r) \<le> 5" by (rule length_shownFindings)
  moreover have "10 < length (qualifying d) \<longrightarrow>
      length (topFiles d) = 10 \<and>
      omittedFiles d =
        ''\<newline>_... '' @ zh_and_more @ '' '' @ show_nat (length (qualifying d) - 10) @ '' '' @
        zh_files_with_issues @ ''_\<newline>\<newline>''"
    by (simp add: topFiles_def omittedFiles_def)
  moreover have "5 < length (findings r) \<longrightarrow>
      length (shownFindings r) = 5 \<and>
      omittedFindings r =
        ''\<newline>_... '' @ zh_and_more @ '' '' @ show_nat (length (findings r) - 5) @ '' '' @
        zh_issues @ ''_\<newline>''"
    by (simp add: shownFindings_def omittedFindings_def)
  ultimately show ?thesis by blast
qed

text \<open>
  The bounds at a report of eleven outcomes with six findings each, none of them an
  error.
\<close>

theorem report_sections_bounded_witness:
  "ReportData.totalErrors sample_data = 0 \<and>
   0 < ReportData.totalIssues sample_data \<and>
   length (qualifying sample_data) = 11 \<and>
   length (findings sample_outcome) = 6 \<and>
   prioritySection sample_data = [] \<and>
   detailSection sample_data =
     detailHeading @ concat (map detailBlock (topFiles sample_data)) @ omittedFiles sample_data \<and>
   length (topFiles sample_data) = 10 \<and>
   omittedFiles sample_data =
     ''\<newline>_... '' @ zh_and_more @ '' 1 '' @ zh_files_with_issues @ ''_\<newline>\<newline>'' \<and>
   length (shownFindings sample_outcome) = 5 \<and>
   omittedFindings sample_outcome = ''\<newline>_... '' @ zh_and_more @ '' 1 '' @ zh_issues @ ''_\<newline>''"
proof -
  have e: "ReportData.totalErrors sample_data = 0" by (simp add: sample_data_def)
  have i: "0 < ReportData.totalIssues sample_data" by (simp add: sample_data_def)
  have q: "length (qualifying sample_data) = 11"
    by (simp add: qualifying_def sample_data_def sample_outcome_def gt_zero_def
        metrics_staticIssues_def)
  have f: "length (findings sample_outcome) = 6"
    by (simp add: findings_def sample_outcome_def)
  have one: "show_nat 1 = ''1''" by code_simp
  show ?thesis
    using report_sections_bounded [of "[]" sample_data sample_outcome] e i q f one
    by simp
qed

text \<open>
  Claim C2 says that two calls of the composer on the same review return the same
  string, the time stamp being supplied by the caller. The composer reads the clock
  itself: at two different instants the same review gives two different reports.
\<close>

theorem same_review_different_reports:
  "generateReportMarkdown ''2024-01-01T00:00:00.000Z'' sample_data \<noteq>
   generateReportMarkdown ''2024-01-01T00:00:00.001Z'' sample_data"
  by (simp add: report_layout)

text \<open>
  Claim C2, amended. The report is a function of the review and of the reading of the
  clock at the call: the reading stands between a prefix and a suffix that the review
  determines, so two calls on the same review return the same string exactly when they
  read the same time.
\<close>

theorem report_depends_on_clock:
  "generateReportMarkdown now d =
     reportTitle d @ now @ summaryTable d @ prioritySection d @ detailSection d @ reportFooter \<and>
   (generateReportMarkdown now1 d = generateReportMarkdown now2 d) = (now1 = now2)"
  by (simp add: report_layout)

section \<open>Properties of the fan-out\<close>



text \<open>
  \<open>Promise.all\<close> with a promise that rejects and settles: the whole rejects.
\<close>

lemma settle_all_rejected:
  assumes "j \<in> set order" and "j < length ps" and "ps ! j = Inl e"
    and "\<forall>i < length ps. \<forall>e'. ps ! i = Inl e' \<longrightarrow> e' = e"
  shows "settle_all ps order slots = Rejected e"
  using assms(1)
proof (induction order arbitrary: slots)
  case Nil
  then show ?case by simp
next
  case (Cons k order)
  show ?case
  proof (cases "k < length ps")
    case False
    with assms(2) have "k \<noteq> j" by auto
    with Cons.prems have "j \<in> set order" by simp
    then have "settle_all ps order slots = Rejected e" by (rule Cons.IH)
    with False show ?thesis by simp
  next
    case True
    show ?thesis
    proof (cases "ps ! k")
      case (Inl e')
      with assms(4) True have "e' = e" by blast
      with True Inl show ?thesis by simp
    next
      case (Inr v)
      with assms(3) have "k \<noteq> j" by auto
      with Cons.prems have "j \<in> set order" by simp
      then have "settle_all ps order (slots[k := Some v]) = Rejected e" by (rule Cons.IH)
      with True Inr show ?thesis by simp
    qed
  qed
qed

lemma map_enumerate_index:
  "map (\<lambda>(i, x). g i x) (enumerate 0 xs) = map (\<lambda>i. g i (xs ! i)) [0..<length xs]"
  by (rule nth_equalityI) (simp_all add: nth_enumerate_eq)

lemma reviewFile_cases:
  "reviewFile workflow_start i file =
     (case workflow_start i \<lparr>InputData.code = content file, InputData.fileName = path file\<rparr> of
        Inl Nullish \<Rightarrow> Inl TypeError_reading_message
      | Inl (Thrown m) \<Rightarrow>
          Inr \<lparr>success = False, FileReviewOutcome.fileName = path file,
               FileReviewOutcome.report = None, FileReviewOutcome.metrics = None,
               error = m, FileReviewOutcome.staticResult = None\<rparr>
      | Inr (Status_success output) \<Rightarrow>
          Inr \<lparr>success = True,
               FileReviewOutcome.fileName = WorkflowOutput.fileName output,
               FileReviewOutcome.report = Some (WorkflowOutput.report output),
               FileReviewOutcome.metrics = Some (WorkflowOutput.metrics output),
               error = None,
               FileReviewOutcome.staticResult = None\<rparr>
      | Inr (Status_failed m) \<Rightarrow>
          Inr \<lparr>success = False, FileReviewOutcome.fileName = path file,
               FileReviewOutcome.report = None, FileReviewOutcome.metrics = None,
               error = m, FileReviewOutcome.staticResult = None\<rparr>
      | Inr Status_other \<Rightarrow>
          Inr \<lparr>success = False, FileReviewOutcome.fileName = path file,
               FileReviewOutcome.report = None, FileReviewOutcome.metrics = None,
               error = Some ''Workflow execution failed'',
               FileReviewOutcome.staticResult = None\<rparr>)"
  by (simp add: reviewFile_def split: sum.splits exn.splits WorkflowResult.splits)






lemma reviewAll_rejected:
  assumes "j \<in> set order" and "j < length files"
    and "workflow_start j \<lparr>InputData.code = content (files ! j),
                              InputData.fileName = path (files ! j)\<rparr> = Inl Nullish"
  shows "reviewAll workflow_start order files = Rejected TypeError_reading_message"
proof -
  let ?ps = "map (\<lambda>(i, file). reviewFile workflow_start i file) (enumerate 0 files)"
  have ps: "?ps = map (\<lambda>i. reviewFile workflow_start i (files ! i)) [0..<length files]"
    by (rule map_enumerate_index)
  have "?ps ! j = Inl TypeError_reading_message"
    unfolding ps using assms(2,3) by (simp add: reviewFile_def)
  moreover have "j < length ?ps" using assms(2) by simp
  moreover have "\<forall>i < length ?ps. \<forall>e'. ?ps ! i = Inl e' \<longrightarrow> e' = TypeError_reading_message"
    by (auto intro: rejection.exhaust)
  ultimately have
    "settle_all ?ps order (replicate (length ?ps) None) = Rejected TypeError_reading_message"
    using assms(1) by (intro settle_all_rejected)
  then show ?thesis by (simp only: reviewAll_def Promise_all_def)
qed









text \<open>
  An outcome that the callback builds has no \<open>staticResult\<close>: the output of the workflow
  is that of its last step, which returns the file name, the report and the metrics.
\<close>

lemma reviewFile_no_staticResult:
  "reviewFile workflow_start i file = Inr outcome \<Longrightarrow>
   FileReviewOutcome.staticResult outcome = None"
  by (auto simp add: reviewFile_def split: sum.splits exn.splits WorkflowResult.splits)

section \<open>Properties of the statistics\<close>

lemma foldl_plus:
  "foldl (\<lambda>sum r. sum + f r) a xs = a + sum_list (map f xs)"
  for a :: nat
  by (induction xs arbitrary: a) simp_all

lemma sum_list_filter:
  "sum_list (map f (filter P xs)) = (\<Sum>x\<leftarrow>xs. if P x then f x else 0)"
  for f :: "'a \<Rightarrow> nat"
  by (induction xs) simp_all

lemma the_metrics_errors:
  "gt_zero (metrics_staticErrors r) \<Longrightarrow>
   staticErrors (the (FileReviewOutcome.metrics r)) = or_zero (metrics_staticErrors r)"
  by (cases "FileReviewOutcome.metrics r")
     (simp_all add: gt_zero_def metrics_staticErrors_def or_zero_def)

lemma or_zero_issues:
  "or_zero (metrics_staticIssues r) =
     (case FileReviewOutcome.metrics r of None \<Rightarrow> 0 | Some m \<Rightarrow> staticIssues m)"
  by (simp add: or_zero_def metrics_staticIssues_def split: option.splits)

lemma or_zero_errors:
  "or_zero (metrics_staticErrors r) =
     (case FileReviewOutcome.metrics r of None \<Rightarrow> 0 | Some m \<Rightarrow> staticErrors m)"
  by (simp add: or_zero_def metrics_staticErrors_def split: option.splits)

lemma gt_zero_errors:
  "gt_zero (metrics_staticErrors r) =
     (case FileReviewOutcome.metrics r of None \<Rightarrow> False | Some m \<Rightarrow> 0 < staticErrors m)"
  by (simp add: gt_zero_def metrics_staticErrors_def split: option.splits)


lemma criticalFiles_reportData:
  "ReportData.criticalFiles (reportData owner repo br ev n rs) =
     map (\<lambda>r. \<lparr>CriticalFile.fileName = FileReviewOutcome.fileName r,
                errors = or_zero (metrics_staticErrors r)\<rparr>)
         (filter (\<lambda>r. gt_zero (metrics_staticErrors r)) (filter success rs))"
  by (simp add: reportData_def Let_def the_metrics_errors)

text \<open>
  Claim C4 says that the failed outcomes, which count for nothing in the totals and in
  the critical files, remain present in the outcomes of the aggregate. The handler builds
  one aggregate, the argument of \<open>generateReportMarkdown\<close>, and its \<open>results\<close> are
  \<open>successResults\<close>: of four outcomes, the second of which failed, the failed one is not
  among the results of the aggregate.
\<close>

theorem failed_outcome_not_in_report_data:
  "failed_b \<in> set sample_results \<and> \<not> success failed_b \<and>
   failed_b \<notin> set (ReportData.results
                     (reportData ''octo'' ''demo'' ''main'' ''push'' 4 sample_results))"
  by (simp add: reportData_def Let_def sample_results_def reviewed_a_def failed_b_def
      reviewed_c_def failed_d_def)

text \<open>
  Claim C4, amended. In the aggregate that the handler builds from a sequence of
  outcomes, \<open>totalIssues\<close> and \<open>totalErrors\<close> are the sums of \<open>metrics.staticIssues\<close> and of
  \<open>metrics.staticErrors\<close> over the outcomes with \<open>success = true\<close>, a failed outcome and an
  outcome without metrics counting for zero; \<open>criticalFiles\<close> are the successful outcomes
  with \<open>metrics.staticErrors > 0\<close>, in their order, each as \<open>{fileName, errors}\<close>; and
  \<open>results\<close> are the successful outcomes in their order, the failed ones being left out.
\<close>

theorem statistics_over_successes:
  "ReportData.totalIssues (reportData owner repo br ev n rs) =
     (\<Sum>r\<leftarrow>rs. if success r
             then (case FileReviewOutcome.metrics r of None \<Rightarrow> 0 | Some m \<Rightarrow> staticIssues m)
             else 0) \<and>
   ReportData.totalErrors (reportData owner repo br ev n rs) =
     (\<Sum>r\<leftarrow>rs. if success r
             then (case FileReviewOutcome.metrics r of None \<Rightarrow> 0 | Some m \<Rightarrow> staticErrors m)
             else 0) \<and>
   ReportData.criticalFiles (reportData owner repo br ev n rs) =
     map (\<lambda>r. \<lparr>CriticalFile.fileName = FileReviewOutcome.fileName r,
                errors = (case FileReviewOutcome.metrics r of None \<Rightarrow> 0
                          | Some m \<Rightarrow> staticErrors m)\<rparr>)
         (filter (\<lambda>r. success r \<and>
                       (case FileReviewOutcome.metrics r of None \<Rightarrow> False
                        | Some m \<Rightarrow> 0 < staticErrors m)) rs) \<and>
   ReportData.results (reportData owner repo br ev n rs) = filter success rs \<and>
   ReportData.totalFiles (reportData owner repo br ev n rs) = n"
proof (intro conjI)
  show "ReportData.totalIssues (reportData owner repo br ev n rs) =
     (\<Sum>r\<leftarrow>rs. if success r
             then (case FileReviewOutcome.metrics r of None \<Rightarrow> 0 | Some m \<Rightarrow> staticIssues m)
             else 0)"
    by (simp add: reportData_def Let_def foldl_plus sum_list_filter or_zero_issues)
  show "ReportData.totalErrors (reportData owner repo br ev n rs) =
     (\<Sum>r\<leftarrow>rs. if success r
             then (case FileReviewOutcome.metrics r of None \<Rightarrow> 0 | Some m \<Rightarrow> staticErrors m)
             else 0)"
    by (simp add: reportData_def Let_def foldl_plus sum_list_filter or_zero_errors)
  show "ReportData.criticalFiles (reportData owner repo br ev n rs) =
     map (\<lambda>r. \<lparr>CriticalFile.fileName = FileReviewOutcome.fileName r,
                errors = (case FileReviewOutcome.metrics r of None \<Rightarrow> 0
                          | Some m \<Rightarrow> staticErrors m)\<rparr>)
         (filter (\<lambda>r. success r \<and>
                       (case FileReviewOutcome.metrics r of None \<Rightarrow> False
                        | Some m \<Rightarrow> 0 < staticErrors m)) rs)"
    by (simp add: criticalFiles_reportData or_zero_errors gt_zero_errors conj_commute)
  show "ReportData.results (reportData owner repo br ev n rs) = filter success rs"
    by (simp add: reportData_def Let_def)
  show "ReportData.totalFiles (reportData owner repo br ev n rs) = n"
    by (simp add: reportData_def Let_def)
qed

text \<open>
  The aggregate of four outcomes: a success with 3 issues and 1 error, a failure, a
  success with 2 issues and no error, and a failure that carries metrics of 7 issues and
  7 errors.
\<close>

theorem statistics_over_successes_witness:
  "ReportData.totalIssues (reportData ''octo'' ''demo'' ''main'' ''push'' 4 sample_results) = 5 \<and>
   ReportData.totalErrors (reportData ''octo'' ''demo'' ''main'' ''push'' 4 sample_results) = 1 \<and>
   ReportData.criticalFiles (reportData ''octo'' ''demo'' ''main'' ''push'' 4 sample_results) =
     [\<lparr>CriticalFile.fileName = ''src/a.ts'', errors = 1\<rparr>] \<and>
   ReportData.results (reportData ''octo'' ''demo'' ''main'' ''push'' 4 sample_results) =
     [reviewed_a, reviewed_c]"
  using statistics_over_successes [of "''octo''" "''demo''" "''main''" "''push''" 4 sample_results]
  by (simp add: sample_results_def reviewed_a_def failed_b_def reviewed_c_def failed_d_def)

section \<open>The detailed issue list\<close>









end
